theory Spec2Isabelle
  imports Main "HOL-Library.Multiset"
begin

section \<open>Data model\<close>

text \<open>
  A JavaScript \<open>Date\<close> is either a point in time (milliseconds since the epoch) or the
  invalid date, whose \<open>getTime()\<close> is \<open>NaN\<close>. \<open>getTime\<close> returns \<open>None\<close> for
  \<open>NaN\<close>; \<open>js_gt\<close> is the comparison \<open>a > b\<close> on such numbers, false as soon as one
  side is \<open>NaN\<close>.
\<close>

datatype date = Date int | Invalid_Date

fun getTime :: "date \<Rightarrow> int option" where
  "getTime (Date ms) = Some ms"
| "getTime Invalid_Date = None"

fun js_gt :: "int option \<Rightarrow> int option \<Rightarrow> bool" where
  "js_gt (Some a) (Some b) = (b < a)"
| "js_gt _ _ = False"

datatype sync_status = Pending | Synced | Error

text \<open>
  The interface \<open>Task\<close>. A row of the table \<open>tasks\<close> is modelled by the same record,
  the 0/1 columns \<open>completed\<close> and \<open>is_deleted\<close> as booleans and a NULL column as
  \<open>None\<close>.
\<close>

record Task =
  t_id :: string
  title :: string
  description :: string
  completed :: bool
  created_at :: date
  updated_at :: date
  is_deleted :: bool
  sync_status :: sync_status
  server_id :: "string option"
  last_synced_at :: "date option"

text \<open>\<open>Partial<Task>\<close>: every field may be absent (\<open>undefined\<close>).\<close>

record PartialTask =
  p_id :: "string option"
  p_title :: "string option"
  p_description :: "string option"
  p_completed :: "bool option"
  p_created_at :: "date option"
  p_updated_at :: "date option"
  p_is_deleted :: "bool option"
  p_sync_status :: "sync_status option"
  p_server_id :: "string option"
  p_last_synced_at :: "date option"

definition emptyPartial :: PartialTask where
  "emptyPartial = \<lparr>p_id = None, p_title = None, p_description = None, p_completed = None,
     p_created_at = None, p_updated_at = None, p_is_deleted = None, p_sync_status = None,
     p_server_id = None, p_last_synced_at = None\<rparr>"

text \<open>A whole task passed where a \<open>Partial<Task>\<close> is expected.\<close>

definition partialOf :: "Task \<Rightarrow> PartialTask" where
  "partialOf t = \<lparr>p_id = Some (t_id t), p_title = Some (title t),
     p_description = Some (description t), p_completed = Some (completed t),
     p_created_at = Some (created_at t), p_updated_at = Some (updated_at t),
     p_is_deleted = Some (is_deleted t), p_sync_status = Some (sync_status t),
     p_server_id = server_id t, p_last_synced_at = last_synced_at t\<rparr>"

text \<open>
  \<open>s || d\<close> on a possibly absent string: the default is taken when \<open>s\<close> is
  \<open>undefined\<close> or the empty string, both falsy.
\<close>

definition str_or :: "string option \<Rightarrow> string \<Rightarrow> string" where
  "str_or s d = (case s of None \<Rightarrow> d | Some v \<Rightarrow> if v = [] then d else v)"

text \<open>
  A row of the table \<open>sync_queue\<close>, which is also the interface \<open>SyncQueueItem\<close>. The
  column \<open>created_at\<close> holds an ISO timestamp; it is modelled by its time in
  milliseconds, which orders the same way.
\<close>

record SyncQueueItem =
  q_id :: string
  task_id :: string
  operation :: string
  data :: PartialTask
  q_created_at :: int
  retry_count :: int
  error_message :: "string option"

text \<open>The database: the two tables, each a list of rows in insertion order.\<close>

record Database =
  tasks :: "Task list"
  sync_queue :: "SyncQueueItem list"

record SyncError =
  e_task_id :: string
  e_operation :: string
  e_error :: string
  e_timestamp :: int

record SyncResult =
  success :: bool
  synced_items :: nat
  failed_items :: nat
  errors :: "SyncError list"

text \<open>One entry of \<open>processed_items\<close> in a batch response.\<close>

record ProcessedItem =
  client_id :: string
  r_server_id :: "string option"
  status :: string
  resolved_data :: "Task option"
  error :: "string option"

text \<open>
  The configuration read by the constructor of \<open>SyncService\<close>: \<open>SYNC_BATCH_SIZE\<close> and
  \<open>SYNC_RETRY_ATTEMPTS\<close>, any integers.
\<close>

record Config =
  batchSize :: int
  maxRetries :: int

section \<open>TaskService\<close>

text \<open>
  The results of \<open>uuidv4()\<close> and the readings of the clock are inputs of the model: a
  function that draws an identifier or reads the time takes them as its first
  arguments, in the order the source draws them.
\<close>

definition addToSyncQueue ::
  "string \<Rightarrow> int \<Rightarrow> string \<Rightarrow> string \<Rightarrow> PartialTask \<Rightarrow> Database \<Rightarrow> Database" where
  "addToSyncQueue qid qnow taskId op d db =
     db\<lparr>sync_queue := sync_queue db @
       [\<lparr>q_id = qid, task_id = taskId, operation = op, data = d, q_created_at = qnow,
         retry_count = 0, error_message = None\<rparr>]\<rparr>"

definition mapRowToTask :: "Task \<Rightarrow> Task" where
  "mapRowToTask row = row\<lparr>description := str_or (Some (description row)) []\<rparr>"

text \<open>
  \<open>SELECT * FROM tasks WHERE id = ? AND is_deleted = 0\<close>, first row; a row whose id
  is the empty string is falsy and reported as no task.
\<close>

definition getTask :: "Database \<Rightarrow> string \<Rightarrow> Task option" where
  "getTask db i =
     (case find (\<lambda>r. t_id r = i \<and> \<not> is_deleted r) (tasks db) of
        None \<Rightarrow> None
      | Some row \<Rightarrow> if t_id row = [] then None else Some (mapRowToTask row))"

definition createTask ::
  "string \<Rightarrow> int \<Rightarrow> string \<Rightarrow> int \<Rightarrow> PartialTask \<Rightarrow> Database \<Rightarrow> Task \<times> Database" where
  "createTask u now qid qnow taskData db =
     (let task = \<lparr>t_id = u,
                  title = str_or (p_title taskData) [],
                  description = str_or (p_description taskData) [],
                  completed = False,
                  created_at = Date now,
                  updated_at = Date now,
                  is_deleted = False,
                  sync_status = Pending,
                  server_id = None,
                  last_synced_at = None\<rparr>;
          row = \<lparr>t_id = t_id task,
                 title = title task,
                 description = str_or (Some (description task)) [],
                 completed = completed task,
                 created_at = Date now,
                 updated_at = Date now,
                 is_deleted = False,
                 sync_status = Pending,
                 server_id = None,
                 last_synced_at = None\<rparr>;
          db1 = db\<lparr>tasks := tasks db @ [row]\<rparr>
      in (task, addToSyncQueue qid qnow (t_id task) ''create'' (partialOf task) db1))"


definition deleteTask ::
  "int \<Rightarrow> string \<Rightarrow> int \<Rightarrow> string \<Rightarrow> Database \<Rightarrow> bool \<times> Database" where
  "deleteTask now qid qnow i db =
     (case getTask db i of
        None \<Rightarrow> (False, db)
      | Some task \<Rightarrow>
          (let db1 = db\<lparr>tasks := map (\<lambda>r. if t_id r = i
                        then r\<lparr>is_deleted := True, updated_at := Date now,
                               sync_status := Pending\<rparr>
                        else r) (tasks db)\<rparr>
           in (True, addToSyncQueue qid qnow i ''delete'' (partialOf task) db1)))"

section \<open>The batch endpoint of the sync router\<close>


section \<open>SyncService\<close>

definition getSyncQueueItems :: "Database \<Rightarrow> SyncQueueItem list" where
  \<comment> \<open>\<open>SELECT * FROM sync_queue ORDER BY created_at ASC\<close>; rows with equal keys stay in
      insertion order\<close>
  "getSyncQueueItems db = sort_key q_created_at (sync_queue db)"

text \<open>
  Last write wins. Each branch also logs which version is kept (\<open>keeping local
  version\<close>, \<open>using server version\<close>); the log is not part of the model.
\<close>

definition resolveConflict :: "Task \<Rightarrow> Task \<Rightarrow> Task" where
  "resolveConflict localTask serverTask =
     (let localTime = getTime (updated_at localTask);
          serverTime = getTime (updated_at serverTask)
      in if js_gt localTime serverTime then localTask
         else if js_gt serverTime localTime then serverTask
         else serverTask)"

text \<open>
  \<open>UPDATE tasks SET sync_status = ?, last_synced_at = ? [, server_id = ?] WHERE id = ?\<close>.
  Of \<open>serverData\<close> only \<open>server_id\<close> is read, and only when it is truthy.
\<close>

definition updateSyncStatus ::
  "int \<Rightarrow> string \<Rightarrow> sync_status \<Rightarrow> PartialTask option \<Rightarrow> Database \<Rightarrow> Database" where
  "updateSyncStatus now taskId st serverData db =
     (let sid = (case serverData of None \<Rightarrow> None | Some d \<Rightarrow> p_server_id d)
      in db\<lparr>tasks := map (\<lambda>r. if t_id r = taskId
                then (let r1 = r\<lparr>sync_status := st, last_synced_at := Some (Date now)\<rparr>
                      in if str_or sid [] \<noteq> [] then r1\<lparr>server_id := Some (str_or sid [])\<rparr>
                         else r1)
                else r) (tasks db)\<rparr>)"

definition handleSyncError :: "Config \<Rightarrow> SyncQueueItem \<Rightarrow> string \<Rightarrow> Database \<Rightarrow> Database" where
  "handleSyncError cfg item msg db =
     (let newRetryCount = retry_count item + 1
      in if maxRetries cfg \<le> newRetryCount then
           (let db1 = db\<lparr>tasks := map (\<lambda>r. if t_id r = task_id item
                                               then r\<lparr>sync_status := Error\<rparr> else r) (tasks db)\<rparr>
            in db1\<lparr>sync_queue := map (\<lambda>q. if q_id q = q_id item
                        then q\<lparr>retry_count := newRetryCount, error_message := Some msg\<rparr>
                        else q) (sync_queue db1)\<rparr>)
         else
           db\<lparr>sync_queue := map (\<lambda>q. if q_id q = q_id item
                     then q\<lparr>retry_count := newRetryCount, error_message := Some msg\<rparr>
                     else q) (sync_queue db)\<rparr>)"

definition removeFromSyncQueue :: "string \<Rightarrow> Database \<Rightarrow> Database" where
  \<comment> \<open>\<open>DELETE FROM sync_queue WHERE task_id = ?\<close>\<close>
  "removeFromSyncQueue taskId db =
     db\<lparr>sync_queue := filter (\<lambda>q. task_id q \<noteq> taskId) (sync_queue db)\<rparr>"

text \<open>
  The body of the loop over \<open>batchResponse.processed_items\<close>: one processed item is
  handled against the batch it answers; the state is the database and the result under
  construction.
\<close>

definition handleProcessedItem ::
  "Config \<Rightarrow> int \<Rightarrow> SyncQueueItem list \<Rightarrow> ProcessedItem \<Rightarrow> Database \<times> SyncResult
     \<Rightarrow> Database \<times> SyncResult" where
  "handleProcessedItem cfg now batch processedItem st =
     (let db = fst st; result = snd st in
      if status processedItem = ''success'' then
        (let db1 = updateSyncStatus now (client_id processedItem) Synced
                     (Some (emptyPartial\<lparr>p_server_id := r_server_id processedItem\<rparr>)) db;
             result1 = result\<lparr>synced_items := synced_items result + 1\<rparr>
         in (removeFromSyncQueue (client_id processedItem) db1, result1))
      else if status processedItem = ''conflict'' then
        (case getTask db (client_id processedItem) of
           None \<Rightarrow> (db, result)
         | Some localTask \<Rightarrow>
             (case resolved_data processedItem of
                None \<Rightarrow> (db, result)
              | Some serverTask \<Rightarrow>
                  (let resolved = resolveConflict localTask serverTask;
                       db1 = updateSyncStatus now (client_id processedItem) Synced
                               (Some (partialOf resolved)) db;
                       result1 = result\<lparr>synced_items := synced_items result + 1\<rparr>;
                       result2 = result1\<lparr>errors := errors result1 @
                         [\<lparr>e_task_id = client_id processedItem, e_operation = ''conflict'',
                           e_error = ''Conflict resolved using last-write-wins'',
                           e_timestamp = now\<rparr>]\<rparr>
                   in (removeFromSyncQueue (client_id processedItem) db1, result2))))
      else
        (let queueItem = find (\<lambda>item. task_id item = client_id processedItem) batch;
             db1 = (case queueItem of
                      None \<Rightarrow> db
                    | Some item \<Rightarrow>
                        handleSyncError cfg item (str_or (error processedItem) ''Unknown error'') db);
             result1 = result\<lparr>failed_items := failed_items result + 1\<rparr>
         in (db1, result1\<lparr>errors := errors result1 @
               [\<lparr>e_task_id = client_id processedItem,
                 e_operation = str_or (map_option operation queueItem) ''unknown'',
                 e_error = str_or (error processedItem) ''Unknown error'',
                 e_timestamp = now\<rparr>]\<rparr>)))"

text \<open>
  The \<open>catch\<close> of the batch: the request of the batch threw an exception with message
  \<open>msg\<close>.
\<close>

definition handleBatchFailure ::
  "Config \<Rightarrow> int \<Rightarrow> SyncQueueItem list \<Rightarrow> string \<Rightarrow> Database \<times> SyncResult
     \<Rightarrow> Database \<times> SyncResult" where
  "handleBatchFailure cfg now batch msg st =
     fold (\<lambda>item s.
             (handleSyncError cfg item msg (fst s),
              (snd s)\<lparr>errors := errors (snd s) @
                 [\<lparr>e_task_id = task_id item, e_operation = operation item, e_error = msg,
                   e_timestamp = now\<rparr>]\<rparr>))
          batch
          (fst st, (snd st)\<lparr>success := False,
                            failed_items := failed_items (snd st) + length batch\<rparr>)"

text \<open>
  \<open>processBatch\<close> posts the batch to the remote endpoint. The endpoint is outside the
  engine: its answer is the parameter \<open>remote\<close>, which gives for a batch either the
  message of the exception the request ends with (\<open>Inl\<close>) or the processed items of the
  response (\<open>Inr\<close>).
\<close>

definition syncBatch ::
  "Config \<Rightarrow> (SyncQueueItem list \<Rightarrow> string + ProcessedItem list) \<Rightarrow> int \<Rightarrow> SyncQueueItem list
     \<Rightarrow> Database \<times> SyncResult \<Rightarrow> Database \<times> SyncResult" where
  "syncBatch cfg remote now batch st =
     (case remote batch of
        Inr processed_items \<Rightarrow> fold (handleProcessedItem cfg now batch) processed_items st
      | Inl msg \<Rightarrow> handleBatchFailure cfg now batch msg st)"

text \<open>\<open>Array.prototype.slice(start, end)\<close>: a negative index counts from the end.\<close>

definition slice :: "'a list \<Rightarrow> int \<Rightarrow> int \<Rightarrow> 'a list" where
  "slice xs s e =
     (let n = int (length xs);
          k = (if s < 0 then max (n + s) 0 else min s n);
          f = (if e < 0 then max (n + e) 0 else min e n)
      in take (nat (f - k)) (drop (nat k) xs))"

text \<open>
  The loop \<open>for (let i = 0; i < queueItems.length; i += this.batchSize)\<close>. With a
  batch size below 1 it never ends: the result \<open>None\<close> stands for a pass that does not
  return.
\<close>

partial_function (option) syncLoop ::
  "Config \<Rightarrow> (SyncQueueItem list \<Rightarrow> string + ProcessedItem list) \<Rightarrow> int \<Rightarrow> SyncQueueItem list
     \<Rightarrow> int \<Rightarrow> Database \<times> SyncResult \<Rightarrow> (Database \<times> SyncResult) option" where
  "syncLoop cfg remote now queueItems i st =
     (if i < int (length queueItems)
      then syncLoop cfg remote now queueItems (i + batchSize cfg)
             (syncBatch cfg remote now (slice queueItems i (i + batchSize cfg)) st)
      else Some st)"

text \<open>
  One synchronization pass. \<open>online\<close> is the answer of \<open>checkConnectivity\<close>, which
  probes the remote and turns any failure into \<open>false\<close>; \<open>now\<close> is the reading of the
  clock stamped on the entries of the result. The statements sent to the database do not
  throw in the model, so the outer \<open>catch\<close> of \<open>sync\<close>, which only they could reach,
  has no branch here.
\<close>

definition sync ::
  "Config \<Rightarrow> bool \<Rightarrow> (SyncQueueItem list \<Rightarrow> string + ProcessedItem list) \<Rightarrow> int \<Rightarrow> Database
     \<Rightarrow> (Database \<times> SyncResult) option" where
  "sync cfg online remote now db =
     (let result = \<lparr>success = True, synced_items = 0, failed_items = 0, errors = []\<rparr>
      in if \<not> online then
           Some (db, result\<lparr>success := False,
                            errors := errors result @
                              [\<lparr>e_task_id = ''N/A'', e_operation = ''connectivity'',
                                e_error = ''Server is not reachable'', e_timestamp = now\<rparr>]\<rparr>)
         else
           (let queueItems = getSyncQueueItems db
            in if length queueItems = 0 then Some (db, result)
               else syncLoop cfg remote now queueItems 0 (db, result)))"

text \<open>
  The batches the loop submits when the batch size is positive: consecutive slices of
  \<open>n\<close> items, the last one shorter.
\<close>

function batches :: "nat \<Rightarrow> 'a list \<Rightarrow> 'a list list" where
  "batches n xs = (if n = 0 \<or> xs = [] then [] else take n xs # batches n (drop n xs))"
  by pat_completeness auto
termination
  by (relation "measure (\<lambda>(n, xs). length xs)") auto

declare batches.simps [simp del]

section \<open>Sample inputs\<close>

text \<open>
  The scenario of the specification: task \<open>T1\<close> is created with title \<open>A\<close> and then
  updated, which queues two intents for the same task.
\<close>

definition sample_local :: Task where
  "sample_local = \<lparr>t_id = ''T1'', title = ''A'', description = [], completed = False,
     created_at = Date 100, updated_at = Date 100, is_deleted = False, sync_status = Pending,
     server_id = None, last_synced_at = None\<rparr>"

definition sample_remote :: Task where
  "sample_remote = \<lparr>t_id = ''T1'', title = ''B'', description = [], completed = False,
     created_at = Date 100, updated_at = Date 200, is_deleted = False, sync_status = Synced,
     server_id = None, last_synced_at = None\<rparr>"

definition sample_create :: SyncQueueItem where
  "sample_create = \<lparr>q_id = ''q1'', task_id = ''T1'', operation = ''create'',
     data = partialOf sample_local, q_created_at = 1, retry_count = 0, error_message = None\<rparr>"

definition sample_update :: SyncQueueItem where
  "sample_update = \<lparr>q_id = ''q2'', task_id = ''T1'', operation = ''update'',
     data = emptyPartial\<lparr>p_title := Some ''B''\<rparr>, q_created_at = 2, retry_count = 0,
     error_message = None\<rparr>"

definition sample_db :: Database where
  "sample_db = \<lparr>tasks = [sample_local], sync_queue = [sample_create, sample_update]\<rparr>"

definition deleted_db :: Database where
  "deleted_db = \<lparr>tasks = [sample_local\<lparr>is_deleted := True\<rparr>], sync_queue = []\<rparr>"

definition sample_cfg :: Config where
  "sample_cfg = \<lparr>batchSize = 1, maxRetries = 3\<rparr>"

definition sample_conflict :: ProcessedItem where
  "sample_conflict = \<lparr>client_id = ''T1'', r_server_id = Some ''T1'', status = ''conflict'',
     resolved_data = Some sample_remote, error = None\<rparr>"

definition sample_success :: ProcessedItem where
  "sample_success = \<lparr>client_id = ''T1'', r_server_id = Some ''T1'', status = ''success'',
     resolved_data = None, error = None\<rparr>"

text \<open>A remote that accepts the batch holding the create intent and times out on any other.\<close>

definition remote_first_only :: "SyncQueueItem list \<Rightarrow> string + ProcessedItem list" where
  "remote_first_only batch =
     (if map q_id batch = [''q1''] then Inr [sample_success] else Inl ''timeout'')"


definition empty_result :: SyncResult where
  "empty_result = \<lparr>success = True, synced_items = 0, failed_items = 0, errors = []\<rparr>"

text \<open>The task with one queued update, and the queue of the scenario filled newest first.\<close>

definition conflict_db :: Database where
  "conflict_db = \<lparr>tasks = [sample_local], sync_queue = [sample_update]\<rparr>"

definition reversed_db :: Database where
  "reversed_db = \<lparr>tasks = [sample_local], sync_queue = [sample_update, sample_create]\<rparr>"

section \<open>Basic facts about the model\<close>

lemma str_or_Some_self [simp]: "str_or (Some s) [] = s"
  by (simp add: str_or_def)

lemma mapRowToTask_id [simp]: "mapRowToTask row = row"
  by (simp add: mapRowToTask_def)

lemma find_Some_mem: "find P xs = Some x \<Longrightarrow> x \<in> set xs \<and> P x"
  by (induction xs) (auto split: if_splits)

lemma getTask_None_iff:
  "getTask db i = None \<longleftrightarrow> (i = [] \<or> (\<forall>r\<in>set (tasks db). t_id r = i \<longrightarrow> is_deleted r))"
proof (cases "find (\<lambda>r. t_id r = i \<and> \<not> is_deleted r) (tasks db)")
  case None
  then have "getTask db i = None" by (simp add: getTask_def)
  moreover from None have "\<forall>r\<in>set (tasks db). t_id r = i \<longrightarrow> is_deleted r"
    by (auto simp: find_None_iff)
  ultimately show ?thesis by simp
next
  case (Some row)
  from find_Some_mem [OF Some] have "row \<in> set (tasks db)" "t_id row = i" "\<not> is_deleted row"
    by auto
  with Some show ?thesis by (auto simp: getTask_def)
qed

lemma tasks_addToSyncQueue [simp]: "tasks (addToSyncQueue qid qnow i op d db) = tasks db"
  by (simp add: addToSyncQueue_def)

lemma soft_deleted_rows:
  "\<forall>r\<in>set (map (\<lambda>r. if t_id r = i
                  then r\<lparr>is_deleted := True, updated_at := d, sync_status := Pending\<rparr>
                  else r) xs). t_id r = i \<longrightarrow> is_deleted r"
  by (induction xs) simp_all

lemma getTask_after_delete:
  "getTask (addToSyncQueue qid qnow i op d
      (db\<lparr>tasks := map (\<lambda>r. if t_id r = i
                  then r\<lparr>is_deleted := True, updated_at := Date now, sync_status := Pending\<rparr>
                  else r) (tasks db)\<rparr>)) i = None"
proof -
  let ?xs = "map (\<lambda>r. if t_id r = i
                  then r\<lparr>is_deleted := True, updated_at := Date now, sync_status := Pending\<rparr>
                  else r) (tasks db)"
  have t: "tasks (addToSyncQueue qid qnow i op d (db\<lparr>tasks := ?xs\<rparr>)) = ?xs"
    by simp
  show ?thesis
    unfolding getTask_None_iff t using soft_deleted_rows by (rule disjI2)
qed

section \<open>Conflict resolution\<close>

text \<open>
  C2: \<open>resolveConflict\<close> returns the local task when its \<open>updated_at\<close> is strictly
  later than the remote one, the remote task when it is strictly earlier, and the remote
  task when both are equal; so \<open>resolveConflict t t = t\<close>. It is defined on every pair
  of tasks, invalid dates included, and always returns one of its two arguments as it
  received it.
\<close>

theorem resolveConflict_last_write_wins:
  "(updated_at l1 = Date a1 \<and> updated_at r1 = Date b1 \<and> b1 < a1 \<longrightarrow> resolveConflict l1 r1 = l1)
   \<and> (updated_at l2 = Date a2 \<and> updated_at r2 = Date b2 \<and> a2 < b2 \<longrightarrow> resolveConflict l2 r2 = r2)
   \<and> (updated_at l3 = updated_at r3 \<longrightarrow> resolveConflict l3 r3 = r3)
   \<and> resolveConflict t t = t
   \<and> (resolveConflict l r = l \<or> resolveConflict l r = r)"
  by (cases "updated_at l3"; cases "updated_at r3"; cases "updated_at t"; cases "updated_at l"; cases "updated_at r")
     (auto simp: resolveConflict_def Let_def)

theorem resolveConflict_last_write_wins_witness:
  "updated_at sample_remote = Date 200 \<and> updated_at sample_local = Date 100 \<and> (100::int) < 200
   \<and> resolveConflict sample_remote sample_local = sample_remote
   \<and> resolveConflict sample_local sample_remote = sample_remote
   \<and> updated_at sample_local = updated_at (sample_local\<lparr>title := ''B''\<rparr>)
   \<and> resolveConflict sample_local (sample_local\<lparr>title := ''B''\<rparr>) = sample_local\<lparr>title := ''B''\<rparr>"
  using resolveConflict_last_write_wins [of sample_remote 200 sample_local 100
          sample_local 100 sample_remote 200 sample_local "sample_local\<lparr>title := ''B''\<rparr>"]
  by (simp add: sample_local_def sample_remote_def)

section \<open>Connectivity failure\<close>

text \<open>
  C7: when the probe reports the remote unreachable, the pass returns at once with
  \<open>success = false\<close> and the single connectivity entry, and the database it returns is
  the one it was given: the queue and every task are untouched.
\<close>

theorem sync_offline:
  "sync cfg False remote now db =
     Some (db, \<lparr>success = False, synced_items = 0, failed_items = 0,
                errors = [\<lparr>e_task_id = ''N/A'', e_operation = ''connectivity'',
                           e_error = ''Server is not reachable'', e_timestamp = now\<rparr>]\<rparr>)"
  by (simp add: sync_def)

section \<open>Creating and deleting tasks\<close>

text \<open>
  C9: whatever the payload, the task returned by \<open>createTask\<close> is not completed, not
  deleted, pending, without \<open>server_id\<close> and \<open>last_synced_at\<close>, and its
  \<open>created_at\<close> equals its \<open>updated_at\<close>; without a title in the payload its title
  is the empty string.
\<close>

theorem createTask_fresh:
  "completed (fst (createTask u now qid qnow taskData db)) = False
   \<and> is_deleted (fst (createTask u now qid qnow taskData db)) = False
   \<and> sync_status (fst (createTask u now qid qnow taskData db)) = Pending
   \<and> server_id (fst (createTask u now qid qnow taskData db)) = None
   \<and> last_synced_at (fst (createTask u now qid qnow taskData db)) = None
   \<and> created_at (fst (createTask u now qid qnow taskData db))
       = updated_at (fst (createTask u now qid qnow taskData db))
   \<and> (p_title taskData = None \<longrightarrow> title (fst (createTask u now qid qnow taskData db)) = [])"
  by (simp add: createTask_def Let_def str_or_def)

theorem createTask_fresh_witness:
  "p_title emptyPartial = None \<and> title (fst (createTask ''T1'' 100 ''q1'' 101 emptyPartial deleted_db)) = []"
  using createTask_fresh [of "''T1''" 100 "''q1''" 101 emptyPartial deleted_db]
  by (simp add: emptyPartial_def)

text \<open>
  C10: \<open>deleteTask\<close> returns \<open>false\<close> and leaves the database, hence the queue, as it
  was when no row with the id is live (the task is absent or soft-deleted); and a second
  \<open>deleteTask\<close> of the same id always returns \<open>false\<close> and changes nothing.
\<close>

theorem deleteTask_absent_or_deleted:
  "((\<forall>r\<in>set (tasks db). t_id r = i \<longrightarrow> is_deleted r)
      \<longrightarrow> deleteTask now qid qnow i db = (False, db))
   \<and> deleteTask now2 qid2 qnow2 i (snd (deleteTask now1 qid1 qnow1 i db))
       = (False, snd (deleteTask now1 qid1 qnow1 i db))"
proof (intro conjI impI)
  assume "\<forall>r\<in>set (tasks db). t_id r = i \<longrightarrow> is_deleted r"
  then have "getTask db i = None" by (simp add: getTask_None_iff)
  then show "deleteTask now qid qnow i db = (False, db)" by (simp add: deleteTask_def)
next
  show "deleteTask now2 qid2 qnow2 i (snd (deleteTask now1 qid1 qnow1 i db))
          = (False, snd (deleteTask now1 qid1 qnow1 i db))"
  proof (cases "getTask db i")
    case None
    then show ?thesis by (simp add: deleteTask_def)
  next
    case (Some task)
    then have "snd (deleteTask now1 qid1 qnow1 i db) = addToSyncQueue qid1 qnow1 i ''delete'' (partialOf task)
      (db\<lparr>tasks := map (\<lambda>r. if t_id r = i
                  then r\<lparr>is_deleted := True, updated_at := Date now1, sync_status := Pending\<rparr>
                  else r) (tasks db)\<rparr>)"
      by (simp add: deleteTask_def Let_def)
    then show ?thesis
      by (simp only: deleteTask_def getTask_after_delete option.case)
  qed
qed

theorem deleteTask_absent_or_deleted_witness:
  "map is_deleted (tasks deleted_db) = [True]
   \<and> deleteTask 300 ''q3'' 301 ''T1'' deleted_db = (False, deleted_db)"
  using deleteTask_absent_or_deleted [of deleted_db "''T1''" 300 "''q3''" 301]
  by (simp add: deleted_db_def)

section \<open>Recording a failure\<close>

lemma queue_failure_ids:
  "map q_id (map (\<lambda>q. if q_id q = k then q\<lparr>retry_count := n, error_message := m\<rparr> else q) xs)
     = map q_id xs"
  by (induction xs) simp_all

lemma queue_failure_task_ids:
  "map task_id (map (\<lambda>q. if q_id q = k then q\<lparr>retry_count := n, error_message := m\<rparr> else q) xs)
     = map task_id xs"
  by (induction xs) simp_all

lemma queue_failure_member:
  "item \<in> set xs \<Longrightarrow>
   item\<lparr>retry_count := n, error_message := m\<rparr>
     \<in> set (map (\<lambda>q. if q_id q = q_id item then q\<lparr>retry_count := n, error_message := m\<rparr> else q) xs)"
  by (induction xs) auto

lemma queue_failure_recorded:
  "q \<in> set (map (\<lambda>q. if q_id q = k then q\<lparr>retry_count := n, error_message := m\<rparr> else q) xs)
     \<Longrightarrow> q_id q = k \<Longrightarrow> retry_count q = n \<and> error_message q = m"
proof -
  assume a: "q \<in> set (map (\<lambda>q. if q_id q = k then q\<lparr>retry_count := n, error_message := m\<rparr> else q) xs)"
    and b: "q_id q = k"
  from a obtain x where x: "x \<in> set xs"
    "q = (if q_id x = k then x\<lparr>retry_count := n, error_message := m\<rparr> else x)"
    unfolding set_map by (rule imageE)
  show ?thesis
  proof (cases "q_id x = k")
    case True
    with x(2) have "q = x\<lparr>retry_count := n, error_message := m\<rparr>" by simp
    then show ?thesis by simp
  next
    case False
    with x(2) have "q = x" by simp
    with False b show ?thesis by simp
  qed
qed

lemma tasks_flag_ids:
  "map t_id (map (\<lambda>r. if t_id r = k then r\<lparr>sync_status := s\<rparr> else r) xs) = map t_id xs"
  by (induction xs) simp_all

lemma tasks_flag_status:
  "t \<in> set (map (\<lambda>r. if t_id r = k then r\<lparr>sync_status := s\<rparr> else r) xs)
     \<Longrightarrow> t_id t = k \<Longrightarrow> sync_status t = s"
proof -
  assume a: "t \<in> set (map (\<lambda>r. if t_id r = k then r\<lparr>sync_status := s\<rparr> else r) xs)"
    and b: "t_id t = k"
  from a obtain x where x: "x \<in> set xs"
    "t = (if t_id x = k then x\<lparr>sync_status := s\<rparr> else x)"
    unfolding set_map by (rule imageE)
  show ?thesis
  proof (cases "t_id x = k")
    case True
    with x(2) have "t = x\<lparr>sync_status := s\<rparr>" by simp
    then show ?thesis by simp
  next
    case False
    with x(2) have "t = x" by simp
    with False b show ?thesis by simp
  qed
qed

lemma handleSyncError_queue:
  "sync_queue (handleSyncError cfg item msg db) =
     map (\<lambda>q. if q_id q = q_id item
               then q\<lparr>retry_count := retry_count item + 1, error_message := Some msg\<rparr> else q)
         (sync_queue db)"
  by (simp add: handleSyncError_def Let_def)

lemma handleSyncError_tasks:
  "tasks (handleSyncError cfg item msg db) =
     (if maxRetries cfg \<le> retry_count item + 1
      then map (\<lambda>r. if t_id r = task_id item then r\<lparr>sync_status := Error\<rparr> else r) (tasks db)
      else tasks db)"
  by (simp add: handleSyncError_def Let_def)

text \<open>
  C5: \<open>handleSyncError\<close> removes no intent and keeps the queue in order; the failed
  intent gets the retry count of the item plus one and the error message. When that count
  reaches \<open>maxRetries\<close> every task row of the intent's task is flagged \<open>error\<close>; below
  the ceiling the table of tasks is unchanged.
\<close>

theorem handleSyncError_retry_ceiling:
  "map q_id (sync_queue (handleSyncError cfg item msg db)) = map q_id (sync_queue db)
   \<and> map task_id (sync_queue (handleSyncError cfg item msg db)) = map task_id (sync_queue db)
   \<and> (\<forall>q\<in>set (sync_queue (handleSyncError cfg item msg db)).
         q_id q = q_id item \<longrightarrow> retry_count q = retry_count item + 1 \<and> error_message q = Some msg)
   \<and> (item \<in> set (sync_queue db) \<longrightarrow>
         item\<lparr>retry_count := retry_count item + 1, error_message := Some msg\<rparr>
           \<in> set (sync_queue (handleSyncError cfg item msg db)))
   \<and> (maxRetries cfg \<le> retry_count item + 1 \<longrightarrow>
         map t_id (tasks (handleSyncError cfg item msg db)) = map t_id (tasks db)
         \<and> (\<forall>t\<in>set (tasks (handleSyncError cfg item msg db)).
               t_id t = task_id item \<longrightarrow> sync_status t = Error))
   \<and> (retry_count item + 1 < maxRetries cfg \<longrightarrow>
         tasks (handleSyncError cfg item msg db) = tasks db)"
proof (intro conjI impI ballI)
  show "map q_id (sync_queue (handleSyncError cfg item msg db)) = map q_id (sync_queue db)"
    by (simp only: handleSyncError_queue queue_failure_ids)
  show "map task_id (sync_queue (handleSyncError cfg item msg db)) = map task_id (sync_queue db)"
    by (simp only: handleSyncError_queue queue_failure_task_ids)
  show "retry_count q = retry_count item + 1"
    if "q \<in> set (sync_queue (handleSyncError cfg item msg db))" "q_id q = q_id item" for q
    using that queue_failure_recorded unfolding handleSyncError_queue by blast
  show "error_message q = Some msg"
    if "q \<in> set (sync_queue (handleSyncError cfg item msg db))" "q_id q = q_id item" for q
    using that queue_failure_recorded unfolding handleSyncError_queue by blast
  show "item\<lparr>retry_count := retry_count item + 1, error_message := Some msg\<rparr>
           \<in> set (sync_queue (handleSyncError cfg item msg db))"
    if "item \<in> set (sync_queue db)"
    unfolding handleSyncError_queue using that by (rule queue_failure_member)
  show "map t_id (tasks (handleSyncError cfg item msg db)) = map t_id (tasks db)"
    if "maxRetries cfg \<le> retry_count item + 1"
    using that by (simp only: handleSyncError_tasks tasks_flag_ids if_True)
  show "sync_status t = Error"
    if "maxRetries cfg \<le> retry_count item + 1"
      "t \<in> set (tasks (handleSyncError cfg item msg db))" "t_id t = task_id item" for t
  proof -
    from that(1,2) have "t \<in> set (map (\<lambda>r. if t_id r = task_id item
        then r\<lparr>sync_status := Error\<rparr> else r) (tasks db))"
      by (simp only: handleSyncError_tasks if_True)
    then show ?thesis using that(3) by (rule tasks_flag_status)
  qed
  show "tasks (handleSyncError cfg item msg db) = tasks db"
    if "retry_count item + 1 < maxRetries cfg"
    using that by (simp add: handleSyncError_tasks)
qed

theorem handleSyncError_retry_ceiling_witness:
  "sample_update\<lparr>retry_count := 2\<rparr>
       \<in> set (sync_queue (sample_db\<lparr>sync_queue := [sample_update\<lparr>retry_count := 2\<rparr>]\<rparr>))
   \<and> maxRetries sample_cfg \<le> retry_count (sample_update\<lparr>retry_count := 2\<rparr>) + 1
   \<and> sample_update\<lparr>retry_count := 3, error_message := Some ''timeout''\<rparr>
       \<in> set (sync_queue (handleSyncError sample_cfg (sample_update\<lparr>retry_count := 2\<rparr>) ''timeout''
                (sample_db\<lparr>sync_queue := [sample_update\<lparr>retry_count := 2\<rparr>]\<rparr>)))
   \<and> map sync_status
         (tasks (handleSyncError sample_cfg (sample_update\<lparr>retry_count := 2\<rparr>) ''timeout''
                  (sample_db\<lparr>sync_queue := [sample_update\<lparr>retry_count := 2\<rparr>]\<rparr>))) = [Error]
   \<and> retry_count sample_update + 1 < maxRetries sample_cfg
   \<and> sample_update \<in> set (sync_queue sample_db)
   \<and> tasks (handleSyncError sample_cfg sample_update ''timeout'' sample_db) = tasks sample_db
   \<and> sample_update\<lparr>retry_count := 1, error_message := Some ''timeout''\<rparr>
       \<in> set (sync_queue (handleSyncError sample_cfg sample_update ''timeout'' sample_db))"
  using handleSyncError_retry_ceiling [of sample_cfg "sample_update\<lparr>retry_count := 2\<rparr>" "''timeout''"
          "sample_db\<lparr>sync_queue := [sample_update\<lparr>retry_count := 2\<rparr>]\<rparr>"]
        handleSyncError_retry_ceiling [of sample_cfg sample_update "''timeout''" sample_db]
  by (simp add: sample_cfg_def sample_db_def sample_update_def sample_local_def
        handleSyncError_tasks)

section \<open>The batches of a pass\<close>

lemma slice_batch:
  assumes "0 \<le> i" "0 < b" "i < int (length xs)"
  shows "slice xs i (i + b) = take (nat b) (drop (nat i) xs)"
proof -
  have k: "(if i < 0 then max (int (length xs) + i) 0 else min i (int (length xs))) = i"
    using assms by simp
  have f: "(if i + b < 0 then max (int (length xs) + (i + b)) 0 else min (i + b) (int (length xs)))
            = min (i + b) (int (length xs))"
    using assms by simp
  have "slice xs i (i + b) = take (nat (min (i + b) (int (length xs)) - i)) (drop (nat i) xs)"
    unfolding slice_def Let_def k f ..
  also have "\<dots> = take (nat b) (drop (nat i) xs)"
  proof (cases "i + b \<le> int (length xs)")
    case True
    then show ?thesis by simp
  next
    case False
    then have "length (drop (nat i) xs) \<le> nat b" "length (drop (nat i) xs) \<le> nat (min (i + b) (int (length xs)) - i)"
      using assms by auto
    then show ?thesis by simp
  qed
  finally show ?thesis .
qed

lemma distinct_slice:
  assumes "distinct (map q_id xs)" "0 \<le> i" "0 < b" "i < int (length xs)"
  shows "distinct (map q_id (slice xs i (i + b)))"
proof -
  have "distinct (take (nat b) (drop (nat i) (map q_id xs)))"
    using assms(1) by (intro distinct_take distinct_drop)
  then show ?thesis
    unfolding slice_batch [OF assms(2-4)] by (simp only: take_map drop_map)
qed

lemma batches_Nil [simp]: "batches n [] = []"
  by (simp add: batches.simps)

lemma batches_Cons: "0 < n \<Longrightarrow> batches n (x # xs) = take n (x # xs) # batches n (drop n (x # xs))"
  by (subst batches.simps) simp

lemma syncLoop_batches:
  assumes "0 < batchSize cfg" "0 \<le> i"
  shows "syncLoop cfg remote now queueItems i st =
           Some (fold (syncBatch cfg remote now)
                   (batches (nat (batchSize cfg)) (drop (nat i) queueItems)) st)"
  using assms(2)
proof (induction "length queueItems - nat i" arbitrary: i st rule: less_induct)
  case less
  let ?n = "nat (batchSize cfg)"
  show ?case
  proof (cases "i < int (length queueItems)")
    case True
    have step: "syncLoop cfg remote now queueItems i st =
        syncLoop cfg remote now queueItems (i + batchSize cfg)
          (syncBatch cfg remote now (slice queueItems i (i + batchSize cfg)) st)"
      using True by (subst syncLoop.simps) simp
    have sl: "slice queueItems i (i + batchSize cfg) = take ?n (drop (nat i) queueItems)"
      using less.prems assms(1) True by (rule slice_batch)
    have dec: "length queueItems - nat (i + batchSize cfg) < length queueItems - nat i"
      using True less.prems assms(1) by linarith
    have nn: "0 \<le> i + batchSize cfg" using less.prems assms(1) by simp
    have ne: "drop (nat i) queueItems \<noteq> []" using True less.prems by simp
    have dd: "drop ?n (drop (nat i) queueItems) = drop (nat (i + batchSize cfg)) queueItems"
      using less.prems assms(1) by (simp add: nat_add_distrib add.commute)
    have b: "batches ?n (drop (nat i) queueItems) =
        take ?n (drop (nat i) queueItems) # batches ?n (drop (nat (i + batchSize cfg)) queueItems)"
    proof -
      have "batches ?n (drop (nat i) queueItems) =
          take ?n (drop (nat i) queueItems) # batches ?n (drop ?n (drop (nat i) queueItems))"
        using ne assms(1) by (subst batches.simps) simp
      then show ?thesis by (simp only: dd)
    qed
    show ?thesis
      unfolding step less.hyps [OF dec nn] b sl by simp
  next
    case False
    then have "syncLoop cfg remote now queueItems i st = Some st"
      by (subst syncLoop.simps) simp
    moreover from False less.prems have "drop (nat i) queueItems = []" by simp
    then have "batches ?n (drop (nat i) queueItems) = []" by (simp add: batches.simps)
    ultimately show ?thesis by simp
  qed
qed

lemma concat_batches: "0 < n \<Longrightarrow> concat (batches n xs) = xs"
proof (induction n xs rule: batches.induct)
  case (1 n xs)
  show ?case
  proof (cases "xs = []")
    case True
    then show ?thesis by (simp add: batches.simps)
  next
    case False
    with 1 have "concat (batches n (drop n xs)) = drop n xs" by simp
    with False 1(2) show ?thesis by (subst batches.simps) simp
  qed
qed

lemma sync_online_batches:
  assumes "0 < batchSize cfg"
  shows "sync cfg True remote now db =
           Some (fold (syncBatch cfg remote now)
                   (batches (nat (batchSize cfg)) (getSyncQueueItems db))
                   (db, \<lparr>success = True, synced_items = 0, failed_items = 0, errors = []\<rparr>))"
proof (cases "getSyncQueueItems db = []")
  case True
  then show ?thesis by (simp add: sync_def)
next
  case False
  have "syncLoop cfg remote now (getSyncQueueItems db) 0
          (db, \<lparr>success = True, synced_items = 0, failed_items = 0, errors = []\<rparr>) =
        Some (fold (syncBatch cfg remote now)
                (batches (nat (batchSize cfg)) (drop (nat 0) (getSyncQueueItems db)))
                (db, \<lparr>success = True, synced_items = 0, failed_items = 0, errors = []\<rparr>))"
    using assms by (intro syncLoop_batches) simp_all
  with False show ?thesis by (simp add: sync_def Let_def)
qed

lemma drained_keys: "map q_created_at (getSyncQueueItems db) = sort (map q_created_at (sync_queue db))"
proof -
  have "sort (map q_created_at (sync_queue db)) = map q_created_at (getSyncQueueItems db)"
    unfolding getSyncQueueItems_def
    by (rule properties_for_sort) simp_all
  then show ?thesis by simp
qed

lemma drained_reversed: "getSyncQueueItems reversed_db = [sample_create, sample_update]"
  by (simp add: getSyncQueueItems_def reversed_db_def sample_create_def sample_update_def)

lemma drained_sample: "getSyncQueueItems sample_db = [sample_create, sample_update]"
  by (simp add: getSyncQueueItems_def sample_db_def sample_create_def sample_update_def)

text \<open>
  C8: draining returns every queued intent, none dropped and none merged, ordered by
  \<open>created_at\<close> ascending, whatever the order of insertion; with a positive batch size
  the pass returns, and it submits the drained list cut into consecutive batches, in that
  order.
\<close>

theorem queue_drained_oldest_first:
  "sorted (map q_created_at (getSyncQueueItems db))
   \<and> mset (getSyncQueueItems db) = mset (sync_queue db)
   \<and> (mset (sync_queue db1) = mset (sync_queue db2) \<longrightarrow>
         map q_created_at (getSyncQueueItems db1) = map q_created_at (getSyncQueueItems db2))
   \<and> (0 < batchSize cfg \<longrightarrow>
         sync cfg True remote now db =
           Some (fold (syncBatch cfg remote now)
                   (batches (nat (batchSize cfg)) (getSyncQueueItems db))
                   (db, \<lparr>success = True, synced_items = 0, failed_items = 0, errors = []\<rparr>))
         \<and> concat (batches (nat (batchSize cfg)) (getSyncQueueItems db)) = getSyncQueueItems db)"
proof (intro conjI impI)
  show "sorted (map q_created_at (getSyncQueueItems db))"
    by (simp add: getSyncQueueItems_def)
  show "mset (getSyncQueueItems db) = mset (sync_queue db)"
    by (simp add: getSyncQueueItems_def)
  show "map q_created_at (getSyncQueueItems db1) = map q_created_at (getSyncQueueItems db2)"
    if "mset (sync_queue db1) = mset (sync_queue db2)"
  proof -
    from that have "mset (map q_created_at (sync_queue db1)) = mset (map q_created_at (sync_queue db2))"
      by (metis mset_map)
    then have "sort (map q_created_at (sync_queue db1)) = sort (map q_created_at (sync_queue db2))"
      by (intro properties_for_sort) simp_all
    then show ?thesis by (simp only: drained_keys)
  qed
  show "sync cfg True remote now db =
           Some (fold (syncBatch cfg remote now)
                   (batches (nat (batchSize cfg)) (getSyncQueueItems db))
                   (db, \<lparr>success = True, synced_items = 0, failed_items = 0, errors = []\<rparr>))"
    if "0 < batchSize cfg"
    using that by (rule sync_online_batches)
  show "concat (batches (nat (batchSize cfg)) (getSyncQueueItems db)) = getSyncQueueItems db"
    if "0 < batchSize cfg"
    using that by (intro concat_batches) simp
qed

theorem queue_drained_oldest_first_witness:
  "mset (sync_queue sample_db) = mset (sync_queue reversed_db)
   \<and> map q_created_at (getSyncQueueItems reversed_db) = [1, 2]
   \<and> map q_created_at (getSyncQueueItems sample_db) = [1, 2]
   \<and> 0 < batchSize sample_cfg
   \<and> concat (batches (nat (batchSize sample_cfg)) (getSyncQueueItems reversed_db))
       = [sample_create, sample_update]"
proof -
  have h1: "mset (sync_queue sample_db) = mset (sync_queue reversed_db)"
    by (simp add: sample_db_def reversed_db_def)
  have h2: "0 < batchSize sample_cfg" by (simp add: sample_cfg_def)
  have k: "map q_created_at (getSyncQueueItems reversed_db) = [1, 2]"
    by (simp add: drained_reversed sample_create_def sample_update_def)
  from queue_drained_oldest_first [of reversed_db sample_db reversed_db sample_cfg]
  show ?thesis using h1 h2 k by (simp add: drained_reversed)
qed

section \<open>A failed batch\<close>

lemma fold_batch_failure:
  "fold (\<lambda>item s.
             (handleSyncError cfg item msg (fst s),
              (snd s)\<lparr>errors := errors (snd s) @
                 [\<lparr>e_task_id = task_id item, e_operation = operation item, e_error = msg,
                   e_timestamp = now\<rparr>]\<rparr>))
          batch (db, r)
     = (fold (\<lambda>item. handleSyncError cfg item msg) batch db,
        r\<lparr>errors := errors r @
              map (\<lambda>item. \<lparr>e_task_id = task_id item, e_operation = operation item,
                             e_error = msg, e_timestamp = now\<rparr>) batch\<rparr>)"
  by (induction batch arbitrary: db r) simp_all

lemma handleBatchFailure_eq:
  "handleBatchFailure cfg now batch msg (db, r) =
     (fold (\<lambda>item. handleSyncError cfg item msg) batch db,
      r\<lparr>success := False, failed_items := failed_items r + length batch,
        errors := errors r @
              map (\<lambda>item. \<lparr>e_task_id = task_id item, e_operation = operation item,
                             e_error = msg, e_timestamp = now\<rparr>) batch\<rparr>)"
  by (simp add: handleBatchFailure_def fold_batch_failure)

lemma fold_failure_ids:
  "map q_id (sync_queue (fold (\<lambda>item. handleSyncError cfg item msg) batch db))
     = map q_id (sync_queue db)"
  by (induction batch arbitrary: db) (simp_all add: handleSyncError_queue queue_failure_ids)

lemma filter_other_id:
  "k' \<noteq> k \<Longrightarrow>
   filter (\<lambda>q. q_id q = k)
     (map (\<lambda>q. if q_id q = k' then q\<lparr>retry_count := n, error_message := m\<rparr> else q) xs)
     = filter (\<lambda>q. q_id q = k) xs"
  by (induction xs) simp_all

lemma fold_failure_other:
  "\<forall>y\<in>set batch. q_id y \<noteq> k \<Longrightarrow>
   filter (\<lambda>q. q_id q = k) (sync_queue (fold (\<lambda>item. handleSyncError cfg item msg) batch db))
     = filter (\<lambda>q. q_id q = k) (sync_queue db)"
proof (induction batch arbitrary: db)
  case Nil
  then show ?case by simp
next
  case (Cons y ys)
  then have "filter (\<lambda>q. q_id q = k)
      (sync_queue (fold (\<lambda>item. handleSyncError cfg item msg) ys (handleSyncError cfg y msg db)))
      = filter (\<lambda>q. q_id q = k) (sync_queue (handleSyncError cfg y msg db))"
    by simp
  also have "\<dots> = filter (\<lambda>q. q_id q = k) (sync_queue db)"
    unfolding handleSyncError_queue using Cons.prems by (intro filter_other_id) simp
  finally show ?case by simp
qed

lemma fold_failure_recorded:
  "distinct (map q_id batch) \<Longrightarrow> item \<in> set batch \<Longrightarrow>
   q \<in> set (sync_queue (fold (\<lambda>item. handleSyncError cfg item msg) batch db)) \<Longrightarrow>
   q_id q = q_id item \<Longrightarrow>
   retry_count q = retry_count item + 1 \<and> error_message q = Some msg"
proof (induction batch arbitrary: db)
  case Nil
  then show ?case by simp
next
  case (Cons y ys)
  let ?db1 = "handleSyncError cfg y msg db"
  from Cons.prems(3) have q: "q \<in> set (sync_queue (fold (\<lambda>item. handleSyncError cfg item msg) ys ?db1))"
    by simp
  from Cons.prems(1) have d: "distinct (map q_id ys)" and "q_id y \<notin> q_id ` set ys"
    by simp_all
  then have fresh: "\<forall>z\<in>set ys. q_id z \<noteq> q_id y"
    by (metis imageI)
  show ?case
  proof (cases "item \<in> set ys")
    case True
    from Cons.IH [OF d True q Cons.prems(4)] show ?thesis .
  next
    case False
    with Cons.prems(2) have iy: "item = y" by simp
    from q Cons.prems(4) iy
    have "q \<in> set (filter (\<lambda>q. q_id q = q_id y)
                 (sync_queue (fold (\<lambda>item. handleSyncError cfg item msg) ys ?db1)))"
      by simp
    then have "q \<in> set (filter (\<lambda>q. q_id q = q_id y) (sync_queue ?db1))"
      by (simp only: fold_failure_other [OF fresh])
    then have "q \<in> set (sync_queue ?db1)" by simp
    then show ?thesis
      unfolding handleSyncError_queue iy using Cons.prems(4) iy
      by (intro queue_failure_recorded) simp_all
  qed
qed

lemma fold_failure_member:
  "distinct (map q_id batch) \<Longrightarrow> item \<in> set batch \<Longrightarrow> item \<in> set (sync_queue db) \<Longrightarrow>
   item\<lparr>retry_count := retry_count item + 1, error_message := Some msg\<rparr>
     \<in> set (sync_queue (fold (\<lambda>item. handleSyncError cfg item msg) batch db))"
proof (induction batch arbitrary: db)
  case Nil
  then show ?case by simp
next
  case (Cons y ys)
  let ?db1 = "handleSyncError cfg y msg db"
  let ?item' = "item\<lparr>retry_count := retry_count item + 1, error_message := Some msg\<rparr>"
  from Cons.prems(1) have d: "distinct (map q_id ys)" and "q_id y \<notin> q_id ` set ys"
    by simp_all
  then have fresh: "\<forall>z\<in>set ys. q_id z \<noteq> q_id y"
    by (metis imageI)
  show ?case
  proof (cases "item = y")
    case True
    have "?item' \<in> set (sync_queue ?db1)"
      unfolding handleSyncError_queue True [symmetric] using Cons.prems(3)
      by (rule queue_failure_member)
    then have "?item' \<in> set (filter (\<lambda>q. q_id q = q_id y) (sync_queue ?db1))"
      using True by simp
    then have "?item' \<in> set (filter (\<lambda>q. q_id q = q_id y)
                 (sync_queue (fold (\<lambda>item. handleSyncError cfg item msg) ys ?db1)))"
      by (simp only: fold_failure_other [OF fresh])
    then show ?thesis by simp
  next
    case False
    with Cons.prems(2) have mem: "item \<in> set ys" by simp
    with fresh have ne: "q_id y \<noteq> q_id item" by auto
    from Cons.prems(3) have "item \<in> set (filter (\<lambda>q. q_id q = q_id item) (sync_queue db))"
      by simp
    then have "item \<in> set (filter (\<lambda>q. q_id q = q_id item) (sync_queue ?db1))"
      unfolding handleSyncError_queue by (simp only: filter_other_id [OF ne])
    then have "item \<in> set (sync_queue ?db1)" by simp
    from Cons.IH [OF d mem this] show ?thesis by simp
  qed
qed

lemma handleProcessedItem_success:
  "success (snd (handleProcessedItem cfg now batch p st)) = success (snd st)"
  by (simp add: handleProcessedItem_def Let_def split: option.splits)

lemma fold_handleProcessedItem_success:
  "success (snd (fold (handleProcessedItem cfg now batch) ps st)) = success (snd st)"
  by (induction ps arbitrary: st) (simp_all add: handleProcessedItem_success)

lemma syncBatch_failure_sticky:
  "\<not> success (snd st) \<Longrightarrow> \<not> success (snd (syncBatch cfg remote now batch st))"
  by (cases "remote batch"; cases st)
     (simp_all add: syncBatch_def fold_handleProcessedItem_success handleBatchFailure_eq)

lemma fold_syncBatch_failure_sticky:
  "\<not> success (snd st) \<Longrightarrow> \<not> success (snd (fold (syncBatch cfg remote now) bs st))"
  by (induction bs arbitrary: st) (simp_all add: syncBatch_failure_sticky)

text \<open>
  What the \<open>catch\<close> of a batch does: the result gets \<open>success = false\<close>,
  \<open>failed_items\<close> grows by the size of the batch and one entry per intent of the batch
  is appended to \<open>errors\<close>; no row is removed, and every queue row carrying the id of
  an intent of the batch holds that intent's retry count plus one and the message of the
  failure. The loop goes on with the next batch, the pass returns, and its result has
  \<open>success = false\<close>. The record needs a row to land on: for an intent of the batch
  whose row is gone from the queue nothing is stored.
\<close>

lemma batch_failure_effects:
  assumes "0 < batchSize cfg" and "0 \<le> i" and "i < int (length queueItems)"
    and "distinct (map q_id queueItems)"
    and "batch = slice queueItems i (i + batchSize cfg)"
    and "remote batch = Inl msg"
    and "(db', res') = syncBatch cfg remote now batch (db, res)"
  shows "success res' = False
    \<and> failed_items res' = failed_items res + length batch
    \<and> synced_items res' = synced_items res
    \<and> errors res' = errors res @
          map (\<lambda>item. \<lparr>e_task_id = task_id item, e_operation = operation item,
                         e_error = msg, e_timestamp = now\<rparr>) batch
    \<and> map q_id (sync_queue db') = map q_id (sync_queue db)
    \<and> (\<forall>item\<in>set batch. \<forall>q\<in>set (sync_queue db').
          q_id q = q_id item \<longrightarrow> retry_count q = retry_count item + 1 \<and> error_message q = Some msg)
    \<and> (\<forall>item\<in>set batch. item \<in> set (sync_queue db) \<longrightarrow>
          item\<lparr>retry_count := retry_count item + 1, error_message := Some msg\<rparr>
            \<in> set (sync_queue db'))
    \<and> syncLoop cfg remote now queueItems i (db, res)
          = syncLoop cfg remote now queueItems (i + batchSize cfg) (db', res')
    \<and> (\<exists>db'' res''. syncLoop cfg remote now queueItems i (db, res) = Some (db'', res'')
          \<and> \<not> success res'')"
proof -
  let ?h = "\<lambda>item. handleSyncError cfg item msg"
  have d: "distinct (map q_id batch)"
    unfolding assms(5) using assms(4,2,1,3) by (rule distinct_slice)
  have "syncBatch cfg remote now batch (db, res) = handleBatchFailure cfg now batch msg (db, res)"
    using assms(6) by (simp add: syncBatch_def)
  with assms(7) have eq: "(db', res') = handleBatchFailure cfg now batch msg (db, res)"
    by simp
  then have db': "db' = fold ?h batch db"
    and res': "res' = res\<lparr>success := False, failed_items := failed_items res + length batch,
        errors := errors res @
              map (\<lambda>item. \<lparr>e_task_id = task_id item, e_operation = operation item,
                             e_error = msg, e_timestamp = now\<rparr>) batch\<rparr>"
    unfolding handleBatchFailure_eq by simp_all
  have step: "syncLoop cfg remote now queueItems i (db, res)
          = syncLoop cfg remote now queueItems (i + batchSize cfg) (db', res')"
    using assms(3) unfolding assms(7) assms(5) by (subst syncLoop.simps) simp
  have nn: "0 \<le> i + batchSize cfg" using assms(1,2) by simp
  have fin: "syncLoop cfg remote now queueItems (i + batchSize cfg) (db', res') =
      Some (fold (syncBatch cfg remote now)
              (batches (nat (batchSize cfg)) (drop (nat (i + batchSize cfg)) queueItems)) (db', res'))"
    using assms(1) nn by (rule syncLoop_batches)
  have "\<not> success (snd (db', res'))" by (simp add: res')
  then have "\<not> success (snd (fold (syncBatch cfg remote now)
              (batches (nat (batchSize cfg)) (drop (nat (i + batchSize cfg)) queueItems)) (db', res')))"
    by (rule fold_syncBatch_failure_sticky)
  with step fin have ex: "\<exists>db'' res''. syncLoop cfg remote now queueItems i (db, res) = Some (db'', res'')
          \<and> \<not> success res''"
    by (metis prod.collapse)
  show ?thesis
  proof (intro conjI ballI impI)
    show "success res' = False" by (simp add: res')
    show "failed_items res' = failed_items res + length batch" by (simp add: res')
    show "synced_items res' = synced_items res" by (simp add: res')
    show "errors res' = errors res @
          map (\<lambda>item. \<lparr>e_task_id = task_id item, e_operation = operation item,
                         e_error = msg, e_timestamp = now\<rparr>) batch" by (simp add: res')
    show "map q_id (sync_queue db') = map q_id (sync_queue db)"
      unfolding db' by (rule fold_failure_ids)
    show "retry_count q = retry_count item + 1"
      if "item \<in> set batch" "q \<in> set (sync_queue db')" "q_id q = q_id item" for item q
      using fold_failure_recorded [OF d that(1) that(2) [unfolded db'] that(3)] by simp
    show "error_message q = Some msg"
      if "item \<in> set batch" "q \<in> set (sync_queue db')" "q_id q = q_id item" for item q
      using fold_failure_recorded [OF d that(1) that(2) [unfolded db'] that(3)] by simp
    show "item\<lparr>retry_count := retry_count item + 1, error_message := Some msg\<rparr>
            \<in> set (sync_queue db')"
      if "item \<in> set batch" "item \<in> set (sync_queue db)" for item
      unfolding db' using d that by (rule fold_failure_member)
    show "syncLoop cfg remote now queueItems i (db, res)
          = syncLoop cfg remote now queueItems (i + batchSize cfg) (db', res')"
      by (rule step)
    show "\<exists>db'' res''. syncLoop cfg remote now queueItems i (db, res) = Some (db'', res'')
          \<and> \<not> success res''" by (rule ex)
  qed
qed

lemma sample_first_batch:
  "syncBatch sample_cfg remote_first_only 300 [sample_create] (sample_db, empty_result)
     = (removeFromSyncQueue ''T1''
          (updateSyncStatus 300 ''T1'' Synced
             (Some (emptyPartial\<lparr>p_server_id := Some ''T1''\<rparr>)) sample_db),
        empty_result\<lparr>synced_items := 1\<rparr>)"
proof -
  have r: "remote_first_only [sample_create] = Inr [sample_success]"
    by (simp add: remote_first_only_def sample_create_def)
  show ?thesis
    unfolding syncBatch_def r
    by (simp add: handleProcessedItem_def Let_def sample_success_def empty_result_def)
qed

lemma sample_first_batch_queue:
  "sync_queue (removeFromSyncQueue ''T1''
          (updateSyncStatus 300 ''T1'' Synced
             (Some (emptyPartial\<lparr>p_server_id := Some ''T1''\<rparr>)) sample_db)) = []"
  by (simp add: removeFromSyncQueue_def updateSyncStatus_def Let_def sample_db_def
        sample_create_def sample_update_def)

lemma sample_second_batch:
  "syncBatch sample_cfg remote_first_only 300 [sample_update] (db, res)
     = (handleSyncError sample_cfg sample_update ''timeout'' db,
        res\<lparr>success := False, failed_items := failed_items res + 1,
            errors := errors res @
              [\<lparr>e_task_id = ''T1'', e_operation = ''update'', e_error = ''timeout'',
                 e_timestamp = 300\<rparr>]\<rparr>)"
proof -
  have r: "remote_first_only [sample_update] = Inl ''timeout''"
    by (simp add: remote_first_only_def sample_update_def)
  show ?thesis
    unfolding syncBatch_def r
    by (simp add: handleBatchFailure_eq sample_update_def)
qed

lemma sample_pass:
  "sync sample_cfg True remote_first_only 300 sample_db =
     Some (syncBatch sample_cfg remote_first_only 300 [sample_update]
             (syncBatch sample_cfg remote_first_only 300 [sample_create]
                (sample_db, empty_result)))"
proof -
  have b: "batches (nat (batchSize sample_cfg)) (getSyncQueueItems sample_db)
             = [[sample_create], [sample_update]]"
    by (simp add: drained_sample sample_cfg_def batches_Cons)
  have "0 < batchSize sample_cfg" by (simp add: sample_cfg_def)
  then have "sync sample_cfg True remote_first_only 300 sample_db =
      Some (fold (syncBatch sample_cfg remote_first_only 300)
              (batches (nat (batchSize sample_cfg)) (getSyncQueueItems sample_db))
              (sample_db, \<lparr>success = True, synced_items = 0, failed_items = 0, errors = []\<rparr>))"
    by (rule sync_online_batches)
  then show ?thesis
    unfolding b empty_result_def [symmetric]
    by (simp only: fold_simps comp_apply id_apply)
qed

text \<open>
  C6: a batch whose request fails should leave a recorded failure on every intent of the
  batch. In the pass of the scenario with batches of one, the success of the create has
  already deleted the row of the update, by \<open>task_id\<close>, when the batch of the update
  times out: the pass sets \<open>success = false\<close>, counts one failed item and appends the
  entry of the update, but the queue is empty before and after that batch, so no retry
  count and no message is stored for the update.
\<close>

theorem failed_batch_intent_not_recorded:
  "getSyncQueueItems sample_db = [sample_create, sample_update]
   \<and> slice [sample_create, sample_update] 1 (1 + batchSize sample_cfg) = [sample_update]
   \<and> remote_first_only [sample_update] = Inl ''timeout''
   \<and> sync sample_cfg True remote_first_only 300 sample_db =
       Some (syncBatch sample_cfg remote_first_only 300 [sample_update]
               (syncBatch sample_cfg remote_first_only 300 [sample_create]
                  (sample_db, empty_result)))
   \<and> sync_queue (fst (syncBatch sample_cfg remote_first_only 300 [sample_create]
                         (sample_db, empty_result))) = []
   \<and> sync_queue (fst (syncBatch sample_cfg remote_first_only 300 [sample_update]
                         (syncBatch sample_cfg remote_first_only 300 [sample_create]
                            (sample_db, empty_result)))) = []
   \<and> success (snd (syncBatch sample_cfg remote_first_only 300 [sample_update]
                      (syncBatch sample_cfg remote_first_only 300 [sample_create]
                         (sample_db, empty_result)))) = False
   \<and> failed_items (snd (syncBatch sample_cfg remote_first_only 300 [sample_update]
                           (syncBatch sample_cfg remote_first_only 300 [sample_create]
                              (sample_db, empty_result)))) = 1
   \<and> map e_operation (errors (snd (syncBatch sample_cfg remote_first_only 300 [sample_update]
                                     (syncBatch sample_cfg remote_first_only 300 [sample_create]
                                        (sample_db, empty_result))))) = [''update'']"
proof (intro conjI)
  show "getSyncQueueItems sample_db = [sample_create, sample_update]"
    by (rule drained_sample)
  show "slice [sample_create, sample_update] 1 (1 + batchSize sample_cfg) = [sample_update]"
    by (simp add: slice_def sample_cfg_def)
  show "remote_first_only [sample_update] = Inl ''timeout''"
    by (simp add: remote_first_only_def sample_update_def)
  show "sync sample_cfg True remote_first_only 300 sample_db =
       Some (syncBatch sample_cfg remote_first_only 300 [sample_update]
               (syncBatch sample_cfg remote_first_only 300 [sample_create]
                  (sample_db, empty_result)))"
    by (rule sample_pass)
  show "sync_queue (fst (syncBatch sample_cfg remote_first_only 300 [sample_create]
                         (sample_db, empty_result))) = []"
    unfolding sample_first_batch by (simp add: sample_first_batch_queue)
  show "sync_queue (fst (syncBatch sample_cfg remote_first_only 300 [sample_update]
                         (syncBatch sample_cfg remote_first_only 300 [sample_create]
                            (sample_db, empty_result)))) = []"
    unfolding sample_first_batch sample_second_batch
    by (simp add: handleSyncError_queue sample_first_batch_queue)
  show "success (snd (syncBatch sample_cfg remote_first_only 300 [sample_update]
                      (syncBatch sample_cfg remote_first_only 300 [sample_create]
                         (sample_db, empty_result)))) = False"
    unfolding sample_first_batch sample_second_batch by simp
  show "failed_items (snd (syncBatch sample_cfg remote_first_only 300 [sample_update]
                           (syncBatch sample_cfg remote_first_only 300 [sample_create]
                              (sample_db, empty_result)))) = 1"
    unfolding sample_first_batch sample_second_batch by (simp add: empty_result_def)
  show "map e_operation (errors (snd (syncBatch sample_cfg remote_first_only 300 [sample_update]
                                     (syncBatch sample_cfg remote_first_only 300 [sample_create]
                                        (sample_db, empty_result))))) = [''update'']"
    unfolding sample_first_batch sample_second_batch by (simp add: empty_result_def)
qed

section \<open>Handling a processed item\<close>

text \<open>
  C1: for a \<open>conflict\<close> item the engine marks the task synced, removes the intent,
  counts one synced item and appends one conflict entry; the fields of the winner are not
  written. Here the remote version is the newer one and wins, with title \<open>B\<close>, and the
  local row keeps title \<open>A\<close> and its old \<open>updated_at\<close>.
\<close>

theorem conflict_winner_not_persisted:
  "getTask conflict_db ''T1'' = Some sample_local
   \<and> resolveConflict sample_local sample_remote = sample_remote
   \<and> title sample_remote = ''B''
   \<and> map title (tasks (fst (handleProcessedItem sample_cfg 300 [sample_update] sample_conflict
                               (conflict_db, empty_result)))) = [''A'']
   \<and> map updated_at (tasks (fst (handleProcessedItem sample_cfg 300 [sample_update] sample_conflict
                               (conflict_db, empty_result)))) = [Date 100]
   \<and> map sync_status (tasks (fst (handleProcessedItem sample_cfg 300 [sample_update] sample_conflict
                               (conflict_db, empty_result)))) = [Synced]
   \<and> sync_queue (fst (handleProcessedItem sample_cfg 300 [sample_update] sample_conflict
                               (conflict_db, empty_result))) = []
   \<and> synced_items (snd (handleProcessedItem sample_cfg 300 [sample_update] sample_conflict
                               (conflict_db, empty_result))) = 1
   \<and> map e_operation (errors (snd (handleProcessedItem sample_cfg 300 [sample_update]
                               sample_conflict (conflict_db, empty_result)))) = [''conflict'']"
proof -
  have g: "getTask conflict_db ''T1'' = Some sample_local"
    by (simp add: getTask_def conflict_db_def sample_local_def)
  have r: "resolveConflict sample_local sample_remote = sample_remote"
    by (simp add: resolveConflict_def sample_local_def sample_remote_def)
  have s: "status sample_conflict = ''conflict''" "client_id sample_conflict = ''T1''"
    "resolved_data sample_conflict = Some sample_remote"
    by (simp_all add: sample_conflict_def)
  have h: "handleProcessedItem sample_cfg 300 [sample_update] sample_conflict
             (conflict_db, empty_result) =
           (removeFromSyncQueue ''T1''
              (updateSyncStatus 300 ''T1'' Synced (Some (partialOf sample_remote)) conflict_db),
            empty_result\<lparr>synced_items := 1,
              errors := [\<lparr>e_task_id = ''T1'', e_operation = ''conflict'',
                           e_error = ''Conflict resolved using last-write-wins'',
                           e_timestamp = 300\<rparr>]\<rparr>)"
    by (simp add: handleProcessedItem_def Let_def s g r empty_result_def)
  have t: "tasks (fst (handleProcessedItem sample_cfg 300 [sample_update] sample_conflict
                         (conflict_db, empty_result))) =
           [sample_local\<lparr>sync_status := Synced, last_synced_at := Some (Date 300)\<rparr>]"
    unfolding h
    by (simp add: removeFromSyncQueue_def updateSyncStatus_def Let_def conflict_db_def
          sample_local_def sample_remote_def partialOf_def str_or_def)
  have q: "sync_queue (fst (handleProcessedItem sample_cfg 300 [sample_update] sample_conflict
                         (conflict_db, empty_result))) = []"
    unfolding h
    by (simp add: removeFromSyncQueue_def updateSyncStatus_def Let_def conflict_db_def
          sample_update_def)
  show ?thesis
  proof (intro conjI)
    show "getTask conflict_db ''T1'' = Some sample_local" by (rule g)
    show "resolveConflict sample_local sample_remote = sample_remote" by (rule r)
    show "title sample_remote = ''B''" by (simp add: sample_remote_def)
    show "map title (tasks (fst (handleProcessedItem sample_cfg 300 [sample_update]
            sample_conflict (conflict_db, empty_result)))) = [''A'']"
      unfolding t by (simp add: sample_local_def)
    show "map updated_at (tasks (fst (handleProcessedItem sample_cfg 300 [sample_update]
            sample_conflict (conflict_db, empty_result)))) = [Date 100]"
      unfolding t by (simp add: sample_local_def)
    show "map sync_status (tasks (fst (handleProcessedItem sample_cfg 300 [sample_update]
            sample_conflict (conflict_db, empty_result)))) = [Synced]"
      unfolding t by simp
    show "sync_queue (fst (handleProcessedItem sample_cfg 300 [sample_update] sample_conflict
                               (conflict_db, empty_result))) = []"
      by (rule q)
    show "synced_items (snd (handleProcessedItem sample_cfg 300 [sample_update] sample_conflict
                               (conflict_db, empty_result))) = 1"
      unfolding h by simp
    show "map e_operation (errors (snd (handleProcessedItem sample_cfg 300 [sample_update]
                               sample_conflict (conflict_db, empty_result)))) = [''conflict'']"
      unfolding h by simp
  qed
qed

text \<open>
  C3: \<open>removeFromSyncQueue\<close> deletes by \<open>task_id\<close>. With a create and an update of
  task \<open>T1\<close> queued and batches of one, the success of the create removes both intents;
  the batch of the update then times out, and the pass ends with one synced item, one
  failed item and an empty queue: the update is neither applied nor kept for a retry.
\<close>

theorem same_task_intents_removed_together:
  "map q_id (sync_queue sample_db) = [''q1'', ''q2'']
   \<and> map task_id (sync_queue sample_db) = [''T1'', ''T1'']
   \<and> sync_queue (fst (handleProcessedItem sample_cfg 300 [sample_create] sample_success
                         (sample_db, empty_result))) = []
   \<and> map_option (sync_queue \<circ> fst) (sync sample_cfg True remote_first_only 300 sample_db)
       = Some []
   \<and> map_option (synced_items \<circ> snd) (sync sample_cfg True remote_first_only 300 sample_db)
       = Some 1
   \<and> map_option (failed_items \<circ> snd) (sync sample_cfg True remote_first_only 300 sample_db)
       = Some 1"
proof -
  let ?db1 = "removeFromSyncQueue ''T1''
                (updateSyncStatus 300 ''T1'' Synced
                   (Some (emptyPartial\<lparr>p_server_id := Some ''T1''\<rparr>)) sample_db)"
  have h: "handleProcessedItem sample_cfg 300 [sample_create] sample_success
             (sample_db, empty_result) = (?db1, empty_result\<lparr>synced_items := 1\<rparr>)"
    by (simp add: handleProcessedItem_def Let_def sample_success_def empty_result_def)
  have q1: "sync_queue ?db1 = []"
    by (simp add: removeFromSyncQueue_def updateSyncStatus_def Let_def sample_db_def
          sample_create_def sample_update_def)
  have b: "batches (nat (batchSize sample_cfg)) (getSyncQueueItems sample_db)
             = [[sample_create], [sample_update]]"
    by (simp add: drained_sample sample_cfg_def batches_Cons)
  have r1: "remote_first_only [sample_create] = Inr [sample_success]"
    by (simp add: remote_first_only_def sample_create_def)
  have r2: "remote_first_only [sample_update] = Inl ''timeout''"
    by (simp add: remote_first_only_def sample_update_def)
  have s1: "syncBatch sample_cfg remote_first_only 300 [sample_create] (sample_db, empty_result)
              = (?db1, empty_result\<lparr>synced_items := 1\<rparr>)"
    by (simp add: syncBatch_def r1 h)
  have s2: "syncBatch sample_cfg remote_first_only 300 [sample_update]
              (?db1, empty_result\<lparr>synced_items := 1\<rparr>)
            = (handleSyncError sample_cfg sample_update ''timeout'' ?db1,
               empty_result\<lparr>synced_items := 1, success := False, failed_items := 1,
                 errors := [\<lparr>e_task_id = ''T1'', e_operation = ''update'', e_error = ''timeout'',
                              e_timestamp = 300\<rparr>]\<rparr>)"
    unfolding syncBatch_def r2
    by (simp add: handleBatchFailure_eq empty_result_def sample_update_def)
  have "0 < batchSize sample_cfg" by (simp add: sample_cfg_def)
  then have "sync sample_cfg True remote_first_only 300 sample_db =
      Some (fold (syncBatch sample_cfg remote_first_only 300)
              (batches (nat (batchSize sample_cfg)) (getSyncQueueItems sample_db))
              (sample_db, \<lparr>success = True, synced_items = 0, failed_items = 0, errors = []\<rparr>))"
    by (rule sync_online_batches)
  then have s: "sync sample_cfg True remote_first_only 300 sample_db =
      Some (handleSyncError sample_cfg sample_update ''timeout'' ?db1,
               empty_result\<lparr>synced_items := 1, success := False, failed_items := 1,
                 errors := [\<lparr>e_task_id = ''T1'', e_operation = ''update'', e_error = ''timeout'',
                              e_timestamp = 300\<rparr>]\<rparr>)"
    unfolding b empty_result_def [symmetric]
    by (simp only: fold_simps comp_apply id_apply s1 s2)
  show ?thesis
  proof (intro conjI)
    show "map q_id (sync_queue sample_db) = [''q1'', ''q2'']"
      by (simp add: sample_db_def sample_create_def sample_update_def)
    show "map task_id (sync_queue sample_db) = [''T1'', ''T1'']"
      by (simp add: sample_db_def sample_create_def sample_update_def)
    show "sync_queue (fst (handleProcessedItem sample_cfg 300 [sample_create] sample_success
                         (sample_db, empty_result))) = []"
      unfolding h by (simp add: q1)
    show "map_option (sync_queue \<circ> fst) (sync sample_cfg True remote_first_only 300 sample_db)
            = Some []"
      unfolding s by (simp add: handleSyncError_queue q1)
    show "map_option (synced_items \<circ> snd) (sync sample_cfg True remote_first_only 300 sample_db)
            = Some 1"
      unfolding s by simp
    show "map_option (failed_items \<circ> snd) (sync sample_cfg True remote_first_only 300 sample_db)
            = Some 1"
      unfolding s by simp
  qed
qed

section \<open>The create case of the batch endpoint\<close>




end
